theory Spec2Isabelle
  imports Complex_Main "HOL-Library.Sublist" "HOL-Library.AList"
begin

section \<open>The star-rating engine of Equilibrate.py\<close>

text \<open>
  A shallow embedding of \<^verbatim>\<open>src/Equilibrate.py\<close>. Conventions:
  \<^item> a Python \<^verbatim>\<open>float\<close> is a \<open>real\<close> and every arithmetic operation is the exact one; the
    rounding of binary64 arithmetic is modelled for \<^verbatim>\<open>round(change, 4)\<close> and, in a
    subsection of its own, for \<^verbatim>\<open>_influence_weight\<close>, since a claim is about an exact value
    of it;
  \<^item> a \<^verbatim>\<open>datetime\<close> is an \<open>int\<close>, the microseconds since the epoch (the resolution of
    \<^verbatim>\<open>datetime\<close>; \<^verbatim>\<open>isoformat\<close> followed by \<^verbatim>\<open>fromisoformat\<close> is the identity on it);
  \<^item> \<^verbatim>\<open>datetime.now\<close> is an input: a function that reads the clock takes the reading as
    an argument;
  \<^item> an exception is a value of type \<open>error\<close>; a method that can raise returns a pair of
    \<open>error + 'a\<close> and the state of the object at that moment;
  \<^item> user identifiers and feedback types are strings, compared for equality only; a text
    that the engine lowers is a list of Unicode code points.
\<close>

type_synonym user_id = string
type_synonym timestamp = int
type_synonym pystr = "nat list"

text \<open>A string literal of ASCII characters, as the list of its code points.\<close>

definition py :: "string \<Rightarrow> pystr" where
  "py lit = map of_char lit"

text \<open>
  The exceptions the engine can raise: \<^verbatim>\<open>ValueError("feedback_type must be ...")\<close> of
  \<^verbatim>\<open>process_feedback\<close>, \<^verbatim>\<open>ValueError("math domain error")\<close> of \<^verbatim>\<open>math.sqrt\<close> on a
  negative argument, \<^verbatim>\<open>ZeroDivisionError\<close> of a float division by zero, \<^verbatim>\<open>OverflowError\<close> of
  a float power whose result is beyond the range of floats, and \<^verbatim>\<open>KeyError\<close> of a
  dictionary lookup.
\<close>

datatype error =
  ValueError_feedback_type | ValueError_math_domain | ZeroDivisionError | OverflowError | KeyError

text \<open>
  The argument \<^verbatim>\<open>comment_text\<close>: a \<^verbatim>\<open>str\<close>, or any other Python value (\<^verbatim>\<open>None\<close>, the
  default, among them).
\<close>

datatype pytext = Text pystr | NonText

subsection \<open>Simple fallback sentiment\<close>

definition POS_WORDS :: "pystr list" where
  "POS_WORDS = map py
     [''good'', ''great'', ''awesome'', ''nice'', ''love'', ''excellent'', ''amazing'',
      ''like'', ''well'', ''fantastic'', ''brilliant'', ''happy'', ''recommend'']"

definition NEG_WORDS :: "pystr list" where
  "NEG_WORDS = map py
     [''bad'', ''terrible'', ''hate'', ''awful'', ''worst'', ''dislike'',
      ''sucks'', ''stupid'', ''vulgar'', ''disgusting'', ''scam'', ''fraud'']"

text \<open>
  \<^verbatim>\<open>str.lower\<close>, code point by code point. The letters A to Z (65 to 90) become a to z, and
  the other ASCII code points are kept. Beyond ASCII, two code points lower to a text with
  an ASCII letter in it: KELVIN SIGN (\<open>0x212A\<close>) lowers to k, and LATIN CAPITAL LETTER I
  WITH DOT ABOVE (\<open>0x130\<close>) to i followed by COMBINING DOT ABOVE (\<open>0x307\<close>). Every other code
  point beyond ASCII lowers to code points beyond ASCII; the engine only looks for ASCII
  words in a lowered text, and the model keeps such a code point as it is.
\<close>

definition lower_cp :: "nat \<Rightarrow> pystr" where
  "lower_cp c =
     (if 65 \<le> c \<and> c \<le> 90 then [c + 32]
      else if c = 0x212A then [107]
      else if c = 0x130 then [105, 0x307]
      else [c])"

definition lower :: "pystr \<Rightarrow> pystr" where
  "lower text = concat (map lower_cp text)"

text \<open>
  The two loops over the word sets. \<^verbatim>\<open>w in text_l\<close> on strings is the test for a contiguous
  substring, \<^const>\<open>sublist\<close>.
\<close>

definition count_pos :: "pystr \<Rightarrow> int \<Rightarrow> int" where
  "count_pos text_l score = fold (\<lambda>w sc. if sublist w text_l then sc + 1 else sc) POS_WORDS score"

definition count_neg :: "pystr \<Rightarrow> int \<Rightarrow> int" where
  "count_neg text_l score = fold (\<lambda>w sc. if sublist w text_l then sc - 1 else sc) NEG_WORDS score"

definition simple_rule_sentiment :: "pytext \<Rightarrow> string" where
  "simple_rule_sentiment text =
     (case text of
        NonText \<Rightarrow> ''neutral''
      | Text t \<Rightarrow>
          if t = [] then ''neutral''
          else
            let text_l = lower t;
                score = count_neg text_l (count_pos text_l 0)
            in if score > 0 then ''positive''
               else if score < 0 then ''negative''
               else ''neutral'')"

subsection \<open>The data model\<close>

text \<open>
  An entry of a user's history: a feedback application (time, rater, feedback type,
  polarity, old rating, rounded change, new rating) or a decay application (time, old
  rating, new rating).
\<close>

datatype event =
    FeedbackEvent timestamp user_id string string real real real
  | DecayEvent timestamp real real

record user_meta =
  received_count :: nat
  positive_count :: nat
  negative_count :: nat
  last_updated :: timestamp
  history :: "event list"

record appeal =
  user :: user_id
  reason :: string
  time :: timestamp

text \<open>
  The object \<^verbatim>\<open>StarRatingSystem\<close>. \<open>sentiment_pipe\<close> is \<open>None\<close> when
  \<^verbatim>\<open>use_advanced_sentiment\<close> is false; otherwise it holds the external classifier, a function
  from its input to the label it returns, \<open>None\<close> when the call raises. \<open>meta\<close> is an
  association list in insertion order, as \<^verbatim>\<open>apply_decay\<close> iterates over it; the other two
  dictionaries are maps. \<open>cooldown_days\<close> is a whole number of days, as its default.
\<close>

record system =
  base_change :: real
  min_rating :: real
  max_rating :: real
  neutral :: real
  decay_half_life_days :: real
  cooldown_days :: int
  sentiment_pipe :: "(pytext \<Rightarrow> pystr option) option"
  ratings :: "user_id \<rightharpoonup> real"
  meta :: "(user_id \<times> user_meta) list"
  last_feedback :: "user_id \<times> user_id \<rightharpoonup> timestamp"
  appeal_log :: "appeal list"

text \<open>The constructor; \<open>pipe\<close> is the pipeline built when \<^verbatim>\<open>advanced_sentiment\<close> is set and
  the library is installed.\<close>

definition init ::
  "real \<Rightarrow> real \<Rightarrow> real \<Rightarrow> real \<Rightarrow> real \<Rightarrow> (pytext \<Rightarrow> pystr option) option \<Rightarrow> int \<Rightarrow> system" where
  "init bc mn mx nr hl pipe cd =
     \<lparr>base_change = bc, min_rating = mn, max_rating = mx, neutral = nr,
      decay_half_life_days = hl, cooldown_days = cd, sentiment_pipe = pipe,
      ratings = Map.empty, meta = [], last_feedback = Map.empty, appeal_log = []\<rparr>"

text \<open>The default configuration of the constructor, without the advanced classifier.\<close>

definition default_system :: system where
  "default_system = init (6 / 100) 0 5 (5 / 2) 90 None 7"

subsection \<open>Rounding to binary64\<close>

text \<open>Rounding to the nearest integer, a tie to the even one.\<close>

definition round_half_even :: "real \<Rightarrow> int" where
  "round_half_even x =
     (let f = \<lfloor>x\<rfloor>; d = x - of_int f
      in if d < 1 / 2 then f else if d > 1 / 2 then f + 1
         else if even f then f else f + 1)"

text \<open>
  A Python \<^verbatim>\<open>float\<close> is an IEEE 754 binary64 number, and each operation on floats returns
  the exact result rounded to the nearest binary64 number, a tie to the one with an even
  significand. \<open>round_b64\<close> is that rounding on a real of magnitude below \<open>2\<^sup>1\<^sup>0\<^sup>2\<^sup>4\<close>: the
  binade of \<open>x\<close> has exponent \<open>\<lfloor>log 2 \<bar>x\<bar>\<rfloor>\<close>, at least \<open>-1022\<close> (below it the numbers are
  subnormal), and the binary64 numbers of the binade are the multiples of \<open>2\<close> to the
  exponent minus \<open>52\<close>.
\<close>

definition b64_exponent :: "real \<Rightarrow> int" where
  "b64_exponent x = max \<lfloor>log 2 \<bar>x\<bar>\<rfloor> (- 1022)"

definition b64_ulp :: "real \<Rightarrow> real" where
  "b64_ulp x = 2 powr of_int (b64_exponent x - 52)"

definition round_b64 :: "real \<Rightarrow> real" where
  "round_b64 x = of_int (round_half_even (x / b64_ulp x)) * b64_ulp x"

subsection \<open>Utility helpers\<close>

definition get_rating :: "system \<Rightarrow> user_id \<Rightarrow> real" where
  "get_rating s user_id = (case ratings s user_id of Some r \<Rightarrow> r | None \<Rightarrow> neutral s)"

definition clamp :: "system \<Rightarrow> real \<Rightarrow> real" where
  "clamp s val = max (min_rating s) (min (max_rating s) val)"

text \<open>
  \<^verbatim>\<open>(now - last_time).days\<close>: a \<^verbatim>\<open>timedelta\<close> is normalised with a non-negative part
  below one day, so \<^verbatim>\<open>.days\<close> is the floor of the difference in days.
\<close>

definition microseconds_per_day :: int where
  "microseconds_per_day = 86400000000"

definition cooldown_ok :: "system \<Rightarrow> user_id \<Rightarrow> user_id \<Rightarrow> timestamp \<Rightarrow> bool" where
  "cooldown_ok s target_user rater_user now =
     (case last_feedback s (rater_user, target_user) of
        None \<Rightarrow> True
      | Some last_time \<Rightarrow>
          if (now - last_time) div microseconds_per_day \<ge> cooldown_days s then True
          else False)"

subsection \<open>Influence and difficulty\<close>

text \<open>
  The range of floats: an exact result of magnitude \<open>2\<^sup>1\<^sup>0\<^sup>2\<^sup>4 - 2\<^sup>9\<^sup>7\<^sup>0\<close> or more rounds to an
  infinity. A division, a product or a sum of floats returns the infinity; a power \<^verbatim>\<open>**\<close>
  of a finite float raises \<^verbatim>\<open>OverflowError\<close> instead, and a power of an infinity returns an
  infinity. The model has no infinities: where the code computes with one, the model
  computes with the exact number.
\<close>

definition b64_overflows :: "real \<Rightarrow> bool" where
  "b64_overflows x = (2 ^ 1024 - 2 ^ 970 \<le> \<bar>x\<bar>)"

definition pow3_raises :: "real \<Rightarrow> bool" where
  "pow3_raises x = (\<not> b64_overflows x \<and> b64_overflows (x ^ 3))"

text \<open>
  \<^verbatim>\<open>rater_rating / self.max_rating\<close> raises \<^verbatim>\<open>ZeroDivisionError\<close> when \<^verbatim>\<open>max_rating\<close> is zero,
  \<^verbatim>\<open>math.sqrt\<close> raises \<^verbatim>\<open>ValueError\<close> on a negative argument, and \<^verbatim>\<open>frac ** 3\<close> raises
  \<^verbatim>\<open>OverflowError\<close> when the cube is beyond the range.
\<close>

definition influence_weight :: "system \<Rightarrow> real \<Rightarrow> error + real" where
  "influence_weight s rater_rating =
     (if max_rating s = 0 then Inl ZeroDivisionError
      else
        let norm = rater_rating / max_rating s
        in if norm < 0 then Inl ValueError_math_domain
           else Inr (1 / 10 + 11 / 10 * sqrt norm))"

definition difficulty_modifier :: "system \<Rightarrow> real \<Rightarrow> error + real" where
  "difficulty_modifier s target_rating =
     (if max_rating s = 0 then Inl ZeroDivisionError
      else
        let frac = target_rating / max_rating s
        in if pow3_raises frac then Inl OverflowError
           else
             let modifier = 1 - frac ^ 3
             in Inr (max (12 / 100) modifier))"

subsection \<open>Sentiment handling\<close>

text \<open>\<^verbatim>\<open>text[:512]\<close>; what a slice of a value that is not a string gives is left to the
  classifier's function.\<close>

definition slice512 :: "pytext \<Rightarrow> pytext" where
  "slice512 text = (case text of Text t \<Rightarrow> Text (take 512 t) | NonText \<Rightarrow> NonText)"

definition sentiment_from_text :: "system \<Rightarrow> pytext \<Rightarrow> string" where
  "sentiment_from_text s text =
     (case sentiment_pipe s of
        Some pipe \<Rightarrow>
          (case pipe (slice512 text) of
             Some res_label \<Rightarrow>
               let label = lower res_label
               in if sublist (py ''pos'') label then ''positive''
                  else if sublist (py ''neg'') label then ''negative''
                  else ''neutral''
           | None \<Rightarrow> simple_rule_sentiment text)
      | None \<Rightarrow> simple_rule_sentiment text)"

subsection \<open>Feedback processing\<close>

text \<open>The chain that determines the polarity, with its final \<^verbatim>\<open>raise\<close>.\<close>

definition determine_polarity :: "system \<Rightarrow> string \<Rightarrow> pytext \<Rightarrow> error + string" where
  "determine_polarity s feedback_type comment_text =
     (if feedback_type = ''like'' then Inr ''positive''
      else if feedback_type = ''dislike'' then Inr ''negative''
      else if feedback_type = ''comment'' then Inr (sentiment_from_text s comment_text)
      else Inl ValueError_feedback_type)"

definition type_mult_table :: "(string \<times> real) list" where
  "type_mult_table = [(''like'', 6 / 10), (''dislike'', 8 / 10), (''comment'', 1)]"

definition direction_of :: "string \<Rightarrow> int" where
  "direction_of polarity =
     (if polarity = ''positive'' then 1 else if polarity = ''negative'' then - 1 else 0)"

text \<open>The change of the rating: zero unless the direction is not zero.\<close>

definition compute_change :: "system \<Rightarrow> real \<Rightarrow> real \<Rightarrow> int \<Rightarrow> real \<Rightarrow> error + real" where
  "compute_change s influence type_mult direction target_rating =
     (if direction \<noteq> 0 then
        let change = base_change s * influence * type_mult * of_int direction
        in case difficulty_modifier s target_rating of
             Inl e \<Rightarrow> Inl e
           | Inr d \<Rightarrow> Inr (change * d)
      else Inr 0)"

text \<open>
  \<^verbatim>\<open>round(change, 4)\<close> takes the float \<^verbatim>\<open>change\<close>, which is the binary64 number nearest to
  the exact change of the model, rounds its exact value to the nearest multiple of
  \<open>1/10000\<close>, a tie to the even one, and returns the float nearest to that.
\<close>

definition round4 :: "real \<Rightarrow> real" where
  "round4 x = round_b64 (of_int (round_half_even (round_b64 x * 10000)) / 10000)"

text \<open>\<^verbatim>\<open>deque(maxlen=500).append\<close>: the oldest entry leaves when the length passes 500.\<close>

definition deque_append :: "event list \<Rightarrow> event \<Rightarrow> event list" where
  "deque_append h e = (let h' = h @ [e] in if length h' > 500 then tl h' else h')"

text \<open>The entry the \<^verbatim>\<open>defaultdict\<close> creates for a user without one, at clock reading \<open>now\<close>.\<close>

definition default_meta :: "timestamp \<Rightarrow> user_meta" where
  "default_meta now =
     \<lparr>received_count = 0, positive_count = 0, negative_count = 0, last_updated = now,
      history = []\<rparr>"

text \<open>
  The writes of \<^verbatim>\<open>process_feedback\<close>, in the order of the source: the rating, the
  counters, the time, the history, the cooldown entry. \<open>now\<close> is the clock reading of
  \<^verbatim>\<open>_now_iso\<close> (the entry a \<^verbatim>\<open>defaultdict\<close> creates reads the clock an instant before, and
  its reading is overwritten here).
\<close>

definition commit_feedback ::
  "system \<Rightarrow> user_id \<Rightarrow> user_id \<Rightarrow> string \<Rightarrow> string \<Rightarrow> int \<Rightarrow> real \<Rightarrow> real \<Rightarrow> timestamp
   \<Rightarrow> real \<times> system" where
  "commit_feedback s target_user rater_user feedback_type polarity direction target_rating change now =
     (let new_rating = clamp s (target_rating + change);
          s1 = s\<lparr>ratings := (ratings s)(target_user \<mapsto> new_rating)\<rparr>;
          m0 = (case map_of (meta s1) target_user of Some m \<Rightarrow> m | None \<Rightarrow> default_meta now);
          m1 = m0\<lparr>received_count := received_count m0 + 1\<rparr>;
          m2 = (if direction = 1 then m1\<lparr>positive_count := positive_count m1 + 1\<rparr>
                else if direction = - 1 then m1\<lparr>negative_count := negative_count m1 + 1\<rparr>
                else m1);
          m3 = m2\<lparr>last_updated := now\<rparr>;
          m4 = m3\<lparr>history := deque_append (history m3)
                  (FeedbackEvent (last_updated m3) rater_user feedback_type polarity
                     target_rating (round4 change) new_rating)\<rparr>;
          s2 = s1\<lparr>meta := AList.update target_user m4 (meta s1)\<rparr>;
          s3 = s2\<lparr>last_feedback := (last_feedback s2)((rater_user, target_user) \<mapsto> last_updated m4)\<rparr>
      in (new_rating, s3))"

text \<open>
  \<^verbatim>\<open>process_feedback\<close>. \<open>t_check\<close> is the clock reading of \<^verbatim>\<open>_cooldown_ok\<close> and
  \<open>t_commit\<close> the later one of \<^verbatim>\<open>_now_iso\<close>.
\<close>

definition process_feedback ::
  "system \<Rightarrow> user_id \<Rightarrow> user_id \<Rightarrow> string \<Rightarrow> pytext \<Rightarrow> timestamp \<Rightarrow> timestamp
   \<Rightarrow> (error + real) \<times> system" where
  "process_feedback s target_user rater_user feedback_type comment_text t_check t_commit =
     (if \<not> cooldown_ok s target_user rater_user t_check then (Inr (get_rating s target_user), s)
      else
        (case determine_polarity s feedback_type comment_text of
           Inl e \<Rightarrow> (Inl e, s)
         | Inr polarity \<Rightarrow>
            (let target_rating = get_rating s target_user;
                 rater_rating = get_rating s rater_user
             in (case influence_weight s rater_rating of
                   Inl e \<Rightarrow> (Inl e, s)
                 | Inr influence \<Rightarrow>
                    (case map_of type_mult_table feedback_type of
                       None \<Rightarrow> (Inl KeyError, s)
                     | Some type_mult \<Rightarrow>
                        (let direction = direction_of polarity
                         in (case compute_change s influence type_mult direction target_rating of
                               Inl e \<Rightarrow> (Inl e, s)
                             | Inr change \<Rightarrow>
                                (let (new_rating, s') =
                                       commit_feedback s target_user rater_user feedback_type
                                         polarity direction target_rating change t_commit
                                 in (Inr new_rating, s')))))))))"

text \<open>
  \<^verbatim>\<open>bulk_process\<close>: one feedback after the other, each with its two clock readings; an
  exception ends the loop and leaves the object as the earlier feedbacks made it.
\<close>

type_synonym feedback = "user_id \<times> user_id \<times> string \<times> pytext \<times> timestamp \<times> timestamp"

fun bulk_loop :: "system \<Rightarrow> feedback list \<Rightarrow> real list \<Rightarrow> (error + real list) \<times> system" where
  "bulk_loop s [] results = (Inr results, s)"
| "bulk_loop s ((target_user, rater_user, feedback_type, comment_text, t_check, t_commit) # fbs) results =
     (case process_feedback s target_user rater_user feedback_type comment_text t_check t_commit of
        (Inl e, s') \<Rightarrow> (Inl e, s')
      | (Inr r, s') \<Rightarrow> bulk_loop s' fbs (results @ [r]))"

definition bulk_process :: "system \<Rightarrow> feedback list \<Rightarrow> (error + real list) \<times> system" where
  "bulk_process s feedbacks = bulk_loop s feedbacks []"

subsection \<open>Decay over time\<close>

text \<open>
  The body of the loop of \<^verbatim>\<open>apply_decay\<close> for one key of \<^verbatim>\<open>self.meta\<close>, with the entry of
  the key read from the object (the loop holds a reference to it; a key of the iteration
  has an entry, and the first case is there for totality).
  \<^verbatim>\<open>total_seconds() / 86400\<close> is the difference of the two times in days.
\<close>

definition elapsed_days :: "timestamp \<Rightarrow> timestamp \<Rightarrow> real" where
  "elapsed_days now last_dt = real_of_int (now - last_dt) / 1000000 / 86400"

definition decay_user :: "real \<Rightarrow> timestamp \<Rightarrow> user_id \<Rightarrow> system \<Rightarrow> system" where
  "decay_user k now uid s =
     (case map_of (meta s) uid of
        None \<Rightarrow> s
      | Some m \<Rightarrow>
          let days = elapsed_days now (last_updated m)
          in if days \<le> 0 then s
             else
               let old_r = get_rating s uid;
                   factor = exp (- k * days);
                   decayed = neutral s + (old_r - neutral s) * factor;
                   s1 = s\<lparr>ratings := (ratings s)(uid \<mapsto> clamp s decayed)\<rparr>;
                   m1 = m\<lparr>last_updated := now\<rparr>;
                   m2 = m1\<lparr>history := deque_append (history m1)
                           (DecayEvent now old_r (get_rating s1 uid))\<rparr>
               in s1\<lparr>meta := AList.update uid m2 (meta s1)\<rparr>)"

definition decay_constant :: "system \<Rightarrow> real" where
  "decay_constant s = ln 2 / max 1 (decay_half_life_days s)"

definition apply_decay :: "timestamp \<Rightarrow> system \<Rightarrow> system" where
  "apply_decay now s = fold (decay_user (decay_constant s) now) (map fst (meta s)) s"

subsection \<open>Privacy and appeals\<close>

definition file_appeal :: "system \<Rightarrow> user_id \<Rightarrow> string \<Rightarrow> timestamp \<Rightarrow> system" where
  "file_appeal s target_user why now =
     s\<lparr>appeal_log := appeal_log s @ [\<lparr>user = target_user, reason = why, time = now\<rparr>]\<rparr>"

text \<open>The two reports read the object and return a value: rating and the three counters,
  and the user, the metadata entry when there is one, and the rating.\<close>

definition anonymized_report :: "system \<Rightarrow> user_id \<Rightarrow> real \<times> nat \<times> nat \<times> nat" where
  "anonymized_report s user_id =
     (let r = get_rating s user_id
      in case map_of (meta s) user_id of
           None \<Rightarrow> (r, 0, 0, 0)
         | Some m \<Rightarrow> (r, received_count m, positive_count m, negative_count m))"

definition full_report :: "system \<Rightarrow> user_id \<Rightarrow> user_id \<times> user_meta option \<times> real" where
  "full_report s user_id = (user_id, map_of (meta s) user_id, get_rating s user_id)"

subsection \<open>The influence weight in binary64 arithmetic\<close>

text \<open>
  \<^verbatim>\<open>_influence_weight\<close> with the arithmetic of the code: the literals \<^verbatim>\<open>0.1\<close> and \<^verbatim>\<open>1.1\<close> are
  the binary64 numbers nearest to them, and the division, \<^verbatim>\<open>math.sqrt\<close>, the product and
  the sum each round their exact result.
\<close>

definition influence_weight_b64 :: "system \<Rightarrow> real \<Rightarrow> error + real" where
  "influence_weight_b64 s rater_rating =
     (if max_rating s = 0 then Inl ZeroDivisionError
      else
        let norm = round_b64 (rater_rating / max_rating s)
        in if norm < 0 then Inl ValueError_math_domain
           else Inr (round_b64 (round_b64 (1 / 10)
                       + round_b64 (round_b64 (11 / 10) * round_b64 (sqrt norm)))))"

section \<open>Notions used in the properties\<close>

subsection \<open>The classifier in the words of the specification\<close>





subsection \<open>Reachable states and the invariant\<close>

text \<open>
  The states of the object that a sequence of calls can produce from a state \<open>s0\<close>: a call
  of \<open>process_feedback\<close> or \<open>bulk_process\<close> leaves its state behind whether it returns or
  raises. \<open>get_rating\<close> and the two reports return values only.
\<close>

inductive reachable :: "system \<Rightarrow> system \<Rightarrow> bool" for s0 :: system where
  reachable_init: "reachable s0 s0"
| reachable_feedback:
    "reachable s0 s \<Longrightarrow>
     reachable s0 (snd (process_feedback s target_user rater_user feedback_type comment_text t_check t_commit))"
| reachable_bulk: "reachable s0 s \<Longrightarrow> reachable s0 (snd (bulk_process s feedbacks))"
| reachable_decay: "reachable s0 s \<Longrightarrow> reachable s0 (apply_decay now s)"
| reachable_appeal: "reachable s0 s \<Longrightarrow> reachable s0 (file_appeal s target_user why now)"

text \<open>
  The clamp invariant, the configuration of a state seen from another, and the two
  together as the property that every call keeps: the configuration of \<open>s0\<close>, and the
  clamp invariant when \<open>s0\<close> has its bounds in order.
\<close>

definition ratings_in_range :: "system \<Rightarrow> bool" where
  "ratings_in_range s =
     (\<forall>u r. ratings s u = Some r \<longrightarrow> min_rating s \<le> r \<and> r \<le> max_rating s)"

definition same_config :: "system \<Rightarrow> system \<Rightarrow> bool" where
  "same_config s s' =
     (base_change s' = base_change s \<and> min_rating s' = min_rating s \<and>
      max_rating s' = max_rating s \<and> neutral s' = neutral s \<and>
      decay_half_life_days s' = decay_half_life_days s \<and>
      cooldown_days s' = cooldown_days s \<and> sentiment_pipe s' = sentiment_pipe s)"

definition invariant_kept :: "system \<Rightarrow> system \<Rightarrow> bool" where
  "invariant_kept s0 s = (same_config s0 s \<and> (min_rating s0 \<le> max_rating s0 \<longrightarrow> ratings_in_range s))"

subsection \<open>What an accepted feedback computes\<close>

text \<open>
  A call is accepted when it passes the cooldown gate, its feedback type is one of the
  three, and the influence weight of the rater and the difficulty modifier of the target
  are defined.
\<close>

definition accepted :: "system \<Rightarrow> user_id \<Rightarrow> user_id \<Rightarrow> string \<Rightarrow> timestamp \<Rightarrow> bool" where
  "accepted s target_user rater_user feedback_type t_check =
     (cooldown_ok s target_user rater_user t_check \<and>
      feedback_type \<in> {''like'', ''dislike'', ''comment''} \<and>
      max_rating s \<noteq> 0 \<and> 0 \<le> get_rating s rater_user / max_rating s \<and>
      \<not> pow3_raises (get_rating s target_user / max_rating s))"

definition feedback_polarity :: "system \<Rightarrow> string \<Rightarrow> pytext \<Rightarrow> string" where
  "feedback_polarity s feedback_type comment_text =
     (if feedback_type = ''like'' then ''positive''
      else if feedback_type = ''dislike'' then ''negative''
      else sentiment_from_text s comment_text)"

definition feedback_type_mult :: "string \<Rightarrow> real" where
  "feedback_type_mult feedback_type =
     (if feedback_type = ''like'' then 6 / 10 else if feedback_type = ''dislike'' then 8 / 10 else 1)"

definition feedback_change :: "system \<Rightarrow> user_id \<Rightarrow> user_id \<Rightarrow> string \<Rightarrow> string \<Rightarrow> real" where
  "feedback_change s target_user rater_user feedback_type polarity =
     (if direction_of polarity \<noteq> 0
      then base_change s * (1 / 10 + 11 / 10 * sqrt (get_rating s rater_user / max_rating s))
             * feedback_type_mult feedback_type * of_int (direction_of polarity)
             * max (12 / 100) (1 - (get_rating s target_user / max_rating s) ^ 3)
      else 0)"

text \<open>The metadata entry of the target after the writes of \<open>commit_feedback\<close>.\<close>

definition committed_meta ::
  "system \<Rightarrow> user_id \<Rightarrow> user_id \<Rightarrow> string \<Rightarrow> string \<Rightarrow> int \<Rightarrow> real \<Rightarrow> real \<Rightarrow> timestamp
   \<Rightarrow> user_meta" where
  "committed_meta s target_user rater_user feedback_type polarity direction target_rating change now =
     (let m0 = (case map_of (meta s) target_user of Some m \<Rightarrow> m | None \<Rightarrow> default_meta now);
          m1 = m0\<lparr>received_count := received_count m0 + 1\<rparr>;
          m2 = (if direction = 1 then m1\<lparr>positive_count := positive_count m1 + 1\<rparr>
                else if direction = - 1 then m1\<lparr>negative_count := negative_count m1 + 1\<rparr>
                else m1);
          m3 = m2\<lparr>last_updated := now\<rparr>
      in m3\<lparr>history := deque_append (history m3)
              (FeedbackEvent now rater_user feedback_type polarity target_rating (round4 change)
                 (clamp s (target_rating + change)))\<rparr>)"

subsection \<open>Example states\<close>

text \<open>The state after \<^verbatim>\<open>sys.process_feedback("alice", "bob", "like")\<close> on a new object with the
  default configuration, the clock reading 0 and then 1.\<close>

definition after_like :: system where
  "after_like = snd (process_feedback default_system ''alice'' ''bob'' ''like'' NonText 0 1)"

text \<open>The state after \<^verbatim>\<open>sys.process_feedback("alice", "alice", "like")\<close>, a user rating
  themselves, on a new object with the default configuration.\<close>

definition after_self_like :: system where
  "after_self_like = snd (process_feedback default_system ''alice'' ''alice'' ''like'' NonText 0 1)"



definition scale_below_zero :: system where
  "scale_below_zero = init (6 / 100) (- 10) (- 5) (- 7) 90 None 7"

definition zero_scale :: system where
  "zero_scale = init (6 / 100) 0 0 0 90 None 7"

text \<open>A target rating whose cube is beyond the range of floats: the float \<^verbatim>\<open>2.0 ** 700\<close>.\<close>

definition huge_rating :: real where
  "huge_rating = 2 ^ 700"


subsection \<open>The view of one user\<close>


section \<open>Properties\<close>

subsection \<open>The lexical classifier\<close>



















text \<open>The classifier on some inputs, evaluated step by step.\<close>

lemma POS_WORDS_code_points:
  "POS_WORDS =
     [[103, 111, 111, 100],
      [103, 114, 101, 97, 116],
      [97, 119, 101, 115, 111, 109, 101],
      [110, 105, 99, 101],
      [108, 111, 118, 101],
      [101, 120, 99, 101, 108, 108, 101, 110, 116],
      [97, 109, 97, 122, 105, 110, 103],
      [108, 105, 107, 101],
      [119, 101, 108, 108],
      [102, 97, 110, 116, 97, 115, 116, 105, 99],
      [98, 114, 105, 108, 108, 105, 97, 110, 116],
      [104, 97, 112, 112, 121],
      [114, 101, 99, 111, 109, 109, 101, 110, 100]]"
  by (simp add: POS_WORDS_def py_def)

lemma NEG_WORDS_code_points:
  "NEG_WORDS =
     [[98, 97, 100],
      [116, 101, 114, 114, 105, 98, 108, 101],
      [104, 97, 116, 101],
      [97, 119, 102, 117, 108],
      [119, 111, 114, 115, 116],
      [100, 105, 115, 108, 105, 107, 101],
      [115, 117, 99, 107, 115],
      [115, 116, 117, 112, 105, 100],
      [118, 117, 108, 103, 97, 114],
      [100, 105, 115, 103, 117, 115, 116, 105, 110, 103],
      [115, 99, 97, 109],
      [102, 114, 97, 117, 100]]"
  by (simp add: NEG_WORDS_def py_def)

lemma sentiment_of_scores:
  assumes "t \<noteq> []" and "lower t = text_l" and "count_pos text_l 0 = p" and "count_neg text_l p = n"
  shows "simple_rule_sentiment (Text t) =
           (if n > 0 then ''positive'' else if n < 0 then ''negative'' else ''neutral'')"
  using assms by (simp add: simple_rule_sentiment_def Let_def)






lemma classify_ok: "simple_rule_sentiment (Text (py ''ok'')) = ''neutral''"
proof -
  have t: "py ''ok'' = [111, 107]"
    by (simp add: py_def)
  have l: "lower [111, 107] = [111, 107]"
    by (simp add: lower_def lower_cp_def)
  have p: "count_pos [111, 107] 0 = 0"
    unfolding count_pos_def POS_WORDS_code_points by (simp add: sublist_Cons_right)
  have n: "count_neg [111, 107] 0 = 0"
    unfolding count_neg_def NEG_WORDS_code_points by (simp add: sublist_Cons_right)
  have "simple_rule_sentiment (Text [111, 107]) =
      (if (0::int) > 0 then ''positive'' else if (0::int) < 0 then ''negative'' else ''neutral'')"
    by (rule sentiment_of_scores [OF _ l p n]) simp
  then show ?thesis unfolding t by simp
qed



text \<open>
  Claim C9. For a user without an entry in the rating store, \<open>get_rating\<close> returns
  \<open>neutral\<close>. \<open>get_rating\<close> reads the object and returns a value only: it is a function of
  the state with no state in its result.
\<close>

theorem get_rating_unseen:
  "ratings s user_id = None \<Longrightarrow> get_rating s user_id = neutral s"
  by (simp add: get_rating_def)

theorem get_rating_unseen_witness:
  "ratings default_system ''zoe'' = None \<and> get_rating default_system ''zoe'' = 5 / 2"
proof -
  have h: "ratings default_system ''zoe'' = None"
    by (simp add: default_system_def init_def)
  show ?thesis using h get_rating_unseen [OF h] by (simp add: default_system_def init_def)
qed

subsection \<open>Rounding to binary64\<close>

lemma floor_log2_eq:
  assumes "2 powr of_int k \<le> x" and "x < 2 powr of_int (k + 1)"
  shows "\<lfloor>log 2 x\<rfloor> = k"
proof -
  have "0 < x" using assms(1) by (smt (verit) powr_gt_zero)
  then show ?thesis using assms by (simp add: floor_log_eq_powr_iff)
qed

lemma b64_exponent_eq:
  assumes "2 powr of_int k \<le> \<bar>x\<bar>" and "\<bar>x\<bar> < 2 powr of_int (k + 1)" and "- 1022 \<le> k"
  shows "b64_exponent x = k"
  using floor_log2_eq [OF assms(1,2)] assms(3) by (simp add: b64_exponent_def)

lemma rhe_bounds: "\<lfloor>x\<rfloor> \<le> round_half_even x" "round_half_even x \<le> \<lfloor>x\<rfloor> + 1"
  by (simp_all add: round_half_even_def Let_def)

lemma rhe_floor: "x - of_int \<lfloor>x\<rfloor> < 1 / 2 \<Longrightarrow> round_half_even x = \<lfloor>x\<rfloor>"
  by (simp add: round_half_even_def Let_def)

lemma rhe_ceil: "x - of_int \<lfloor>x\<rfloor> > 1 / 2 \<Longrightarrow> round_half_even x = \<lfloor>x\<rfloor> + 1"
  by (simp add: round_half_even_def Let_def)

lemma rhe_mono: 
  assumes "a \<le> b" shows "round_half_even a \<le> round_half_even b"
proof (cases "\<lfloor>a\<rfloor> = \<lfloor>b\<rfloor>")
  case True
  have "a - of_int \<lfloor>a\<rfloor> \<le> b - of_int \<lfloor>b\<rfloor>" using assms True by simp
  then show ?thesis
    using True by (auto simp add: round_half_even_def Let_def)
next
  case False
  then have "\<lfloor>a\<rfloor> < \<lfloor>b\<rfloor>" using assms floor_mono [of a b] by linarith
  then show ?thesis using rhe_bounds(2) [of a] rhe_bounds(1) [of b] by linarith
qed

lemma rhe_int: "round_half_even (of_int n) = n"
  by (simp add: round_half_even_def)

lemma rhe_ge_int: "of_int n \<le> x \<Longrightarrow> n \<le> round_half_even x"
  using rhe_mono [of "of_int n" x] by (simp add: rhe_int)

lemma rhe_le_int: "x \<le> of_int n \<Longrightarrow> round_half_even x \<le> n"
  using rhe_mono [of x "of_int n"] by (simp add: rhe_int)

lemma b64_ulp_pos: "0 < b64_ulp x"
  by (simp add: b64_ulp_def)

lemma round_b64_0: "round_b64 0 = 0"
  by (simp add: round_b64_def rhe_int [of 0, simplified])

lemma round_b64_nonneg: "0 \<le> x \<Longrightarrow> 0 \<le> round_b64 x"
proof -
  assume "0 \<le> x"
  then have "0 \<le> x / b64_ulp x" using b64_ulp_pos [of x] by simp
  then have "0 \<le> round_half_even (x / b64_ulp x)" using rhe_ge_int [of 0] by simp
  then show ?thesis using b64_ulp_pos [of x] by (simp add: round_b64_def)
qed

lemma b64_exponent_mono:
  assumes "0 < x" and "x \<le> y"
  shows "b64_exponent x \<le> b64_exponent y"
proof -
  have "log 2 x \<le> log 2 y" using assms by simp
  then have "\<lfloor>log 2 x\<rfloor> \<le> \<lfloor>log 2 y\<rfloor>" by (rule floor_mono)
  moreover have "\<bar>x\<bar> = x" "\<bar>y\<bar> = y" using assms by simp_all
  ultimately show ?thesis by (simp add: b64_exponent_def)
qed

lemma below_next_binade:
  assumes "0 < x"
  shows "x < 2 powr of_int (b64_exponent x + 1)"
proof -
  have "x < 2 powr of_int (\<lfloor>log 2 x\<rfloor> + 1)"
    using assms floor_log_eq_powr_iff [of x 2 "\<lfloor>log 2 x\<rfloor>"] by simp
  also have "\<dots> \<le> 2 powr of_int (b64_exponent x + 1)"
    using assms by (simp add: b64_exponent_def)
  finally show ?thesis .
qed

lemma above_binade:
  assumes "0 < x" and "- 1022 < b64_exponent x"
  shows "2 powr of_int (b64_exponent x) \<le> x"
proof -
  have "b64_exponent x = \<lfloor>log 2 x\<rfloor>"
    using assms by (simp add: b64_exponent_def max_def split: if_splits)
  then show ?thesis
    using assms(1) floor_log_eq_powr_iff [of x 2 "\<lfloor>log 2 x\<rfloor>"] by simp
qed

lemma powr_53_times: "(2::real) powr 53 * 2 powr (e - 52) = 2 powr (e + 1)"
proof -
  have "(2::real) powr 53 * 2 powr (e - 52) = 2 powr (53 + (e - 52))"
    by (rule powr_add [symmetric])
  then show ?thesis by (simp add: algebra_simps)
qed

lemma powr_52_times: "(2::real) powr 52 * 2 powr (e - 52) = 2 powr e"
proof -
  have "(2::real) powr 52 * 2 powr (e - 52) = 2 powr (52 + (e - 52))"
    by (rule powr_add [symmetric])
  then show ?thesis by simp
qed

lemma powr_53_div: "(2::real) powr (e + 1) / 2 powr (e - 52) = 2 powr 53"
proof -
  have "(2::real) powr (e + 1) / 2 powr (e - 52) = 2 powr ((e + 1) - (e - 52))"
    by (rule powr_diff [symmetric])
  then show ?thesis by simp
qed

lemma powr_52_div: "(2::real) powr e / 2 powr (e - 52) = 2 powr 52"
proof -
  have "(2::real) powr e / 2 powr (e - 52) = 2 powr (e - (e - 52))"
    by (rule powr_diff [symmetric])
  then show ?thesis by simp
qed

lemma round_b64_le_next_binade:
  assumes "0 < x"
  shows "round_b64 x \<le> 2 powr of_int (b64_exponent x + 1)"
proof -
  let ?e = "b64_exponent x"
  have "x / b64_ulp x < 2 powr of_int (?e + 1) / 2 powr of_int (?e - 52)"
    using below_next_binade [OF assms] by (simp add: b64_ulp_def divide_strict_right_mono)
  also have "\<dots> = 2 powr 53"
    using powr_53_div [of "of_int ?e"] by simp
  also have "\<dots> = of_int (2 ^ 53)" by simp
  finally have "round_half_even (x / b64_ulp x) \<le> 2 ^ 53"
    using rhe_le_int [of "x / b64_ulp x" "2 ^ 53"] by simp
  then have "round_b64 x \<le> of_int (2 ^ 53) * b64_ulp x"
    unfolding round_b64_def using b64_ulp_pos [of x]
    by (intro mult_right_mono) (simp_all add: of_int_le_iff [symmetric] del: of_int_le_iff)
  also have "\<dots> = 2 powr 53 * 2 powr (of_int ?e - 52)" by (simp add: b64_ulp_def)
  also have "\<dots> = 2 powr of_int (?e + 1)" using powr_53_times [of "of_int ?e"] by simp
  finally show ?thesis .
qed

lemma round_b64_ge_binade:
  assumes "0 < x" and "- 1022 < b64_exponent x"
  shows "2 powr of_int (b64_exponent x) \<le> round_b64 x"
proof -
  let ?e = "b64_exponent x"
  have "2 powr of_int ?e / 2 powr of_int (?e - 52) \<le> x / b64_ulp x"
    using above_binade [OF assms] by (simp add: b64_ulp_def divide_right_mono)
  moreover have "2 powr of_int ?e / 2 powr of_int (?e - 52) = (2::real) powr 52"
    using powr_52_div [of "of_int ?e"] by simp
  moreover have "(2::real) powr 52 = of_int (2 ^ 52)" by simp
  ultimately have "2 ^ 52 \<le> round_half_even (x / b64_ulp x)"
    using rhe_ge_int [of "2 ^ 52" "x / b64_ulp x"] by simp
  then have "of_int (2 ^ 52) * b64_ulp x \<le> round_b64 x"
    unfolding round_b64_def using b64_ulp_pos [of x]
    by (intro mult_right_mono) (simp_all add: of_int_le_iff [symmetric] del: of_int_le_iff)
  moreover have "of_int (2 ^ 52) * b64_ulp x = 2 powr 52 * 2 powr (of_int ?e - 52)"
    by (simp add: b64_ulp_def)
  moreover have "2 powr 52 * 2 powr (of_int ?e - 52) = (2::real) powr of_int ?e"
    by (rule powr_52_times)
  ultimately show ?thesis by simp
qed

lemma round_b64_mono:
  assumes "0 \<le> x" and "x \<le> y"
  shows "round_b64 x \<le> round_b64 y"
proof (cases "x = 0")
  case True
  then show ?thesis using assms round_b64_nonneg [of y] by (simp add: round_b64_0)
next
  case False
  then have x: "0 < x" and y: "0 < y" using assms by simp_all
  have le: "b64_exponent x \<le> b64_exponent y" using x assms(2) by (rule b64_exponent_mono)
  show ?thesis
  proof (cases "b64_exponent x = b64_exponent y")
    case True
    then have u: "b64_ulp y = b64_ulp x" by (simp add: b64_ulp_def)
    have "x / b64_ulp x \<le> y / b64_ulp x"
      using assms(2) b64_ulp_pos [of x] by (simp add: divide_right_mono)
    then have "round_half_even (x / b64_ulp x) \<le> round_half_even (y / b64_ulp x)"
      by (rule rhe_mono)
    then show ?thesis
      unfolding round_b64_def u using b64_ulp_pos [of x]
      by (intro mult_right_mono) simp_all
  next
    case False
    then have lt: "b64_exponent x + 1 \<le> b64_exponent y" using le by simp
    have "- 1022 \<le> b64_exponent x" by (simp add: b64_exponent_def)
    then have n: "- 1022 < b64_exponent y" using lt by simp
    have "round_b64 x \<le> 2 powr of_int (b64_exponent x + 1)"
      using x by (rule round_b64_le_next_binade)
    also have "\<dots> \<le> 2 powr of_int (b64_exponent y)"
      using lt by simp
    also have "\<dots> \<le> round_b64 y"
      using y n by (rule round_b64_ge_binade)
    finally show ?thesis .
  qed
qed

lemma round_b64_in_binade:
  assumes "2 powr of_int k \<le> x" and "x < 2 powr of_int (k + 1)" and "- 1022 \<le> k"
  shows "round_b64 x = of_int (round_half_even (x / 2 powr of_int (k - 52))) * 2 powr of_int (k - 52)"
proof -
  have "0 < x" using assms(1) by (smt (verit) powr_gt_zero)
  then have "b64_exponent x = k"
    using assms by (intro b64_exponent_eq) simp_all
  then show ?thesis by (simp add: round_b64_def b64_ulp_def)
qed

lemma round_b64_unit_binade:
  assumes "1 \<le> x" and "x < 2"
  shows "round_b64 x = of_int (round_half_even (x * 2 ^ 52)) / 2 ^ 52"
  using round_b64_in_binade [of 0 x] assms by (simp add: powr_minus_divide)

lemma round_b64_1: "round_b64 1 = 1"
  using rhe_int [of "2 ^ 52"] by (simp add: round_b64_unit_binade)

lemma b64_tenth: "round_b64 (1 / 10) = 3602879701896397 / 2 ^ 55"
proof -
  have f: "\<lfloor>(1 / 10 :: real) / (1 / 2 ^ 56)\<rfloor> = 7205759403792793"
    by (simp add: floor_eq_iff)
  have "round_half_even ((1 / 10) / (1 / 2 ^ 56)) = 7205759403792794"
    by (subst rhe_ceil) (simp_all add: f)
  then show ?thesis
    using round_b64_in_binade [of "- 4" "1 / 10"] by (simp add: powr_minus_divide)
qed

lemma b64_eleven_tenths: "round_b64 (11 / 10) = 4953959590107546 / 2 ^ 52"
proof -
  have f: "\<lfloor>(11 / 10 :: real) * 2 ^ 52\<rfloor> = 4953959590107545"
    by (simp add: floor_eq_iff)
  have "round_half_even ((11 / 10) * 2 ^ 52) = 4953959590107546"
    by (subst rhe_ceil) (simp_all add: f)
  then show ?thesis by (simp add: round_b64_unit_binade)
qed

lemma b64_twelve_tenths: "round_b64 (12 / 10) = 5404319552844595 / 2 ^ 52"
proof -
  have f: "\<lfloor>(12 / 10 :: real) * 2 ^ 52\<rfloor> = 5404319552844595"
    by (simp add: floor_eq_iff)
  have "round_half_even ((12 / 10) * 2 ^ 52) = 5404319552844595"
    by (subst rhe_floor) (simp_all add: f)
  then show ?thesis by (simp add: round_b64_unit_binade)
qed

lemma b64_eleven_tenths_fixed:
  "round_b64 (4953959590107546 / 2 ^ 52) = 4953959590107546 / 2 ^ 52"
  using rhe_int [of 4953959590107546] by (simp add: round_b64_unit_binade)

lemma b64_tenth_fixed:
  "round_b64 (3602879701896397 / 2 ^ 55) = 3602879701896397 / 2 ^ 55"
  using round_b64_in_binade [of "- 4" "3602879701896397 / 2 ^ 55"] rhe_int [of 7205759403792794]
  by (simp add: powr_minus_divide)

lemma b64_sum: 
  "round_b64 (3602879701896397 / 2 ^ 55 + 4953959590107546 / 2 ^ 52) = 5404319552844596 / 2 ^ 52"
proof -
  let ?x = "3602879701896397 / 2 ^ 55 + 4953959590107546 / 2 ^ 52 :: real"
  have f: "\<lfloor>?x * 2 ^ 52\<rfloor> = 5404319552844595"
    by (simp add: floor_eq_iff)
  have "round_half_even (?x * 2 ^ 52) = 5404319552844596"
    by (subst rhe_ceil) (simp_all only: f, simp_all)
  then show ?thesis by (simp add: round_b64_unit_binade)
qed




subsection \<open>The paths of process_feedback\<close>

lemma process_feedback_blocked:
  "\<not> cooldown_ok s target rater t1 \<Longrightarrow>
   process_feedback s target rater ft ctext t1 t2 = (Inr (get_rating s target), s)"
  by (simp add: process_feedback_def)

lemma determine_polarity_invalid:
  "ft \<notin> {''like'', ''dislike'', ''comment''} \<Longrightarrow>
   determine_polarity s ft ctext = Inl ValueError_feedback_type"
  by (simp add: determine_polarity_def)

lemma determine_polarity_valid:
  "ft \<in> {''like'', ''dislike'', ''comment''} \<Longrightarrow>
   determine_polarity s ft ctext = Inr (feedback_polarity s ft ctext)"
  by (auto simp add: determine_polarity_def feedback_polarity_def)

lemma type_mult_valid:
  "ft \<in> {''like'', ''dislike'', ''comment''} \<Longrightarrow>
   map_of type_mult_table ft = Some (feedback_type_mult ft)"
  by (auto simp add: type_mult_table_def feedback_type_mult_def)

lemma process_feedback_invalid:
  "cooldown_ok s target rater t1 \<Longrightarrow> ft \<notin> {''like'', ''dislike'', ''comment''} \<Longrightarrow>
   process_feedback s target rater ft ctext t1 t2 = (Inl ValueError_feedback_type, s)"
  by (simp add: process_feedback_def determine_polarity_invalid)

lemma influence_weight_ok:
  "max_rating s \<noteq> 0 \<Longrightarrow> 0 \<le> r / max_rating s \<Longrightarrow>
   influence_weight s r = Inr (1 / 10 + 11 / 10 * sqrt (r / max_rating s))"
  by (simp add: influence_weight_def Let_def)

lemma difficulty_modifier_ok:
  "max_rating s \<noteq> 0 \<Longrightarrow> \<not> pow3_raises (t / max_rating s) \<Longrightarrow>
   difficulty_modifier s t = Inr (max (12 / 100) (1 - (t / max_rating s) ^ 3))"
  by (simp add: difficulty_modifier_def Let_def)

lemma difficulty_modifier_overflow:
  "max_rating s \<noteq> 0 \<Longrightarrow> pow3_raises (t / max_rating s) \<Longrightarrow>
   difficulty_modifier s t = Inl OverflowError"
  by (simp add: difficulty_modifier_def Let_def)

lemma compute_change_ok:
  "max_rating s \<noteq> 0 \<Longrightarrow> d = 0 \<or> \<not> pow3_raises (t / max_rating s) \<Longrightarrow>
   compute_change s influence tm d t =
     Inr (if d \<noteq> 0
          then base_change s * influence * tm * of_int d * max (12 / 100) (1 - (t / max_rating s) ^ 3)
          else 0)"
  by (auto simp add: compute_change_def difficulty_modifier_ok Let_def)

lemma process_feedback_commits:
  assumes c: "cooldown_ok s target rater t1"
    and v: "ft \<in> {''like'', ''dislike'', ''comment''}"
    and m: "max_rating s \<noteq> 0"
    and n: "0 \<le> get_rating s rater / max_rating s"
    and d: "direction_of (feedback_polarity s ft ctext) = 0
            \<or> \<not> pow3_raises (get_rating s target / max_rating s)"
  shows "process_feedback s target rater ft ctext t1 t2 =
           apfst Inr (commit_feedback s target rater ft (feedback_polarity s ft ctext)
             (direction_of (feedback_polarity s ft ctext)) (get_rating s target)
             (feedback_change s target rater ft (feedback_polarity s ft ctext)) t2)"
proof -
  have "compute_change s (1 / 10 + 11 / 10 * sqrt (get_rating s rater / max_rating s))
          (feedback_type_mult ft) (direction_of (feedback_polarity s ft ctext)) (get_rating s target)
        = Inr (feedback_change s target rater ft (feedback_polarity s ft ctext))"
    by (simp add: compute_change_ok [OF m d] feedback_change_def)
  then show ?thesis
    using c m n
    by (simp add: process_feedback_def determine_polarity_valid [OF v] type_mult_valid [OF v]
        influence_weight_ok Let_def apfst_def map_prod_def)
qed

lemma process_feedback_accepted:
  assumes "accepted s target rater ft t1"
  shows "process_feedback s target rater ft ctext t1 t2 =
           apfst Inr (commit_feedback s target rater ft (feedback_polarity s ft ctext)
             (direction_of (feedback_polarity s ft ctext)) (get_rating s target)
             (feedback_change s target rater ft (feedback_polarity s ft ctext)) t2)"
  using assms by (intro process_feedback_commits) (simp_all add: accepted_def)

lemma process_feedback_cases:
  "snd (process_feedback s target rater ft ctext t1 t2) = s \<or>
   (\<exists>pol d change. process_feedback s target rater ft ctext t1 t2 =
      apfst Inr (commit_feedback s target rater ft pol d (get_rating s target) change t2))"
  by (auto simp add: process_feedback_def Let_def apfst_def map_prod_def
      split: sum.splits option.splits)

lemma commit_feedback_eq:
  "commit_feedback s target rater ft pol d tr change now =
     (clamp s (tr + change),
      s\<lparr>ratings := (ratings s)(target \<mapsto> clamp s (tr + change)),
        meta := AList.update target (committed_meta s target rater ft pol d tr change now) (meta s),
        last_feedback := (last_feedback s)((rater, target) \<mapsto> now)\<rparr>)"
  by (simp add: commit_feedback_def committed_meta_def Let_def)

lemma accepted_result:
  assumes "accepted s target rater ft t1"
  shows "fst (process_feedback s target rater ft ctext t1 t2) =
           Inr (clamp s (get_rating s target
                  + feedback_change s target rater ft (feedback_polarity s ft ctext)))"
  by (simp add: process_feedback_accepted [OF assms] commit_feedback_eq)

lemma accepted_ratings:
  assumes "accepted s target rater ft t1"
  shows "ratings (snd (process_feedback s target rater ft ctext t1 t2)) =
           (ratings s)(target \<mapsto> clamp s (get_rating s target
                  + feedback_change s target rater ft (feedback_polarity s ft ctext)))"
  by (simp add: process_feedback_accepted [OF assms] commit_feedback_eq)

lemma accepted_meta:
  assumes "accepted s target rater ft t1"
  shows "map_of (meta (snd (process_feedback s target rater ft ctext t1 t2))) =
           (map_of (meta s))(target \<mapsto>
              committed_meta s target rater ft (feedback_polarity s ft ctext)
                (direction_of (feedback_polarity s ft ctext)) (get_rating s target)
                (feedback_change s target rater ft (feedback_polarity s ft ctext)) t2)"
  by (simp add: process_feedback_accepted [OF assms] commit_feedback_eq update_conv')

lemma accepted_last_feedback:
  assumes "accepted s target rater ft t1"
  shows "last_feedback (snd (process_feedback s target rater ft ctext t1 t2)) =
           (last_feedback s)((rater, target) \<mapsto> t2)"
  by (simp add: process_feedback_accepted [OF assms] commit_feedback_eq)

subsection \<open>The configuration and the range of the ratings\<close>

lemma clamp_range:
  "min_rating s \<le> max_rating s \<Longrightarrow> min_rating s \<le> clamp s v \<and> clamp s v \<le> max_rating s"
  by (simp add: clamp_def)

lemma clamp_id:
  "min_rating s \<le> v \<Longrightarrow> v \<le> max_rating s \<Longrightarrow> clamp s v = v"
  by (simp add: clamp_def)

lemma commit_feedback_same_config:
  "same_config s (snd (commit_feedback s target rater ft pol d tr change now))"
  by (simp add: commit_feedback_eq same_config_def)

lemma commit_feedback_in_range:
  "min_rating s \<le> max_rating s \<Longrightarrow> ratings_in_range s \<Longrightarrow>
   ratings_in_range (snd (commit_feedback s target rater ft pol d tr change now))"
  by (simp add: commit_feedback_eq ratings_in_range_def clamp_range)

lemma process_feedback_same_config:
  "same_config s (snd (process_feedback s target rater ft ctext t1 t2))"
  using process_feedback_cases [of s target rater ft ctext t1 t2]
  by (auto simp: commit_feedback_same_config) (simp add: same_config_def)

lemma process_feedback_in_range:
  "min_rating s \<le> max_rating s \<Longrightarrow> ratings_in_range s \<Longrightarrow>
   ratings_in_range (snd (process_feedback s target rater ft ctext t1 t2))"
  using process_feedback_cases [of s target rater ft ctext t1 t2]
  by (auto simp: commit_feedback_in_range)

lemma invariant_kept_step:
  "invariant_kept s0 s \<Longrightarrow> same_config s s' \<Longrightarrow>
   (min_rating s \<le> max_rating s \<Longrightarrow> ratings_in_range s \<Longrightarrow> ratings_in_range s') \<Longrightarrow>
   invariant_kept s0 s'"
  by (auto simp: invariant_kept_def same_config_def)

lemma process_feedback_kept:
  "invariant_kept s0 s \<Longrightarrow> invariant_kept s0 (snd (process_feedback s target rater ft ctext t1 t2))"
  by (erule invariant_kept_step) (simp_all add: process_feedback_same_config process_feedback_in_range)

lemma bulk_loop_kept:
  "invariant_kept s0 s \<Longrightarrow> invariant_kept s0 (snd (bulk_loop s fbs results))"
proof (induction s fbs results rule: bulk_loop.induct)
  case (1 s results)
  then show ?case by simp
next
  case (2 s target rater ft ctext t1 t2 fbs results)
  obtain res s' where p: "process_feedback s target rater ft ctext t1 t2 = (res, s')"
    by (cases "process_feedback s target rater ft ctext t1 t2")
  have g: "invariant_kept s0 s'"
    using process_feedback_kept [OF "2.prems", of target rater ft ctext t1 t2] p by simp
  show ?case
  proof (cases res)
    case (Inl e)
    then show ?thesis using p g by simp
  next
    case (Inr r)
    then show ?thesis using "2.IH" p g by simp
  qed
qed

lemma decay_user_same_config: "same_config s (decay_user k now uid s)"
  by (simp add: decay_user_def same_config_def Let_def split: option.splits)

lemma decay_user_in_range:
  "min_rating s \<le> max_rating s \<Longrightarrow> ratings_in_range s \<Longrightarrow>
   ratings_in_range (decay_user k now uid s)"
  by (simp add: decay_user_def ratings_in_range_def Let_def clamp_range split: option.splits)

lemma decay_user_kept: "invariant_kept s0 s \<Longrightarrow> invariant_kept s0 (decay_user k now uid s)"
  by (erule invariant_kept_step) (simp_all add: decay_user_same_config decay_user_in_range)

lemma fold_decay_user_kept: "invariant_kept s0 s \<Longrightarrow> invariant_kept s0 (fold (decay_user k now) uids s)"
  by (induction uids arbitrary: s) (simp_all add: decay_user_kept)

lemma file_appeal_kept: "invariant_kept s0 s \<Longrightarrow> invariant_kept s0 (file_appeal s target why now)"
  by (auto simp: invariant_kept_def same_config_def ratings_in_range_def file_appeal_def)

lemma reachable_kept: "reachable s0 s \<Longrightarrow> ratings_in_range s0 \<Longrightarrow> invariant_kept s0 s"
proof (induction rule: reachable.induct)
  case reachable_init
  then show ?case by (simp add: invariant_kept_def same_config_def)
next
  case (reachable_feedback s target rater ft ctext t1 t2)
  then show ?case by (simp add: process_feedback_kept)
next
  case (reachable_bulk s fbs)
  then show ?case by (simp add: bulk_process_def bulk_loop_kept)
next
  case (reachable_decay s now)
  then show ?case by (simp add: apply_decay_def fold_decay_user_kept)
next
  case (reachable_appeal s target why now)
  then show ?case by (simp add: file_appeal_kept)
qed

subsection \<open>The example states\<close>

lemma default_system_fields:
  "max_rating default_system = 5" "min_rating default_system = 0"
  "neutral default_system = 5 / 2" "cooldown_days default_system = 7"
  "base_change default_system = 6 / 100" "sentiment_pipe default_system = None"
  "ratings default_system = Map.empty" "meta default_system = []"
  "last_feedback default_system = Map.empty" "appeal_log default_system = []"
  by (simp_all add: default_system_def init_def)

lemma get_rating_default: "get_rating default_system u = 5 / 2"
  by (simp add: get_rating_def default_system_fields)

lemma cooldown_ok_default: "cooldown_ok default_system target rater now"
  by (simp add: cooldown_ok_def default_system_fields)

lemma no_overflow_small: "\<bar>x\<bar> \<le> 2 \<Longrightarrow> \<not> pow3_raises x"
proof -
  assume a: "\<bar>x\<bar> \<le> 2"
  then have "\<bar>x\<bar> ^ 3 \<le> 2 ^ 3" by (intro power_mono) simp_all
  then have "\<bar>x ^ 3\<bar> \<le> 8" by (simp add: power_abs)
  then show ?thesis by (simp add: pow3_raises_def b64_overflows_def)
qed

lemma accepted_default:
  "ft \<in> {''like'', ''dislike'', ''comment''} \<Longrightarrow> accepted default_system target rater ft now"
  by (simp add: accepted_def cooldown_ok_default default_system_fields get_rating_default
      no_overflow_small)

lemma after_like_last_feedback: "last_feedback after_like = [(''bob'', ''alice'') \<mapsto> 1]"
  unfolding after_like_def
  by (simp add: accepted_last_feedback accepted_default default_system_fields)

lemma after_like_config: "same_config default_system after_like"
  unfolding after_like_def by (rule process_feedback_same_config)

lemma after_like_fields:
  "cooldown_days after_like = 7" "min_rating after_like = 0" "max_rating after_like = 5"
  using after_like_config by (simp_all add: same_config_def default_system_fields)

lemma after_like_rated: "ratings after_like ''alice'' \<noteq> None"
  unfolding after_like_def by (simp add: accepted_ratings accepted_default)

lemma reachable_after_like: "reachable default_system after_like"
  unfolding after_like_def by (rule reachable_feedback [OF reachable_init])

subsection \<open>The clamp invariant\<close>

text \<open>
  Claim C2. When the object is constructed with \<open>min_rating \<le> neutral_rating \<le> max_rating\<close>,
  every value of the rating store lies between \<open>min_rating\<close> and \<open>max_rating\<close> after
  every sequence of calls of \<open>process_feedback\<close>, \<open>bulk_process\<close>, \<open>apply_decay\<close> and
  \<open>file_appeal\<close>, whether they return or raise.
\<close>

theorem clamp_invariant:
  assumes "mn \<le> nr" and "nr \<le> mx"
    and "reachable (init bc mn mx nr hl pipe cd) s"
  shows "\<forall>u r. ratings s u = Some r \<longrightarrow> min_rating s \<le> r \<and> r \<le> max_rating s"
proof -
  let ?s0 = "init bc mn mx nr hl pipe cd"
  have "ratings_in_range ?s0" by (simp add: ratings_in_range_def init_def)
  with assms(3) have "invariant_kept ?s0 s" by (rule reachable_kept)
  moreover have "min_rating ?s0 \<le> max_rating ?s0" using assms(1,2) by (simp add: init_def)
  ultimately show ?thesis by (simp add: invariant_kept_def ratings_in_range_def)
qed

theorem clamp_invariant_witness:
  "(0::real) \<le> 5 / 2 \<and> (5 / 2 :: real) \<le> 5
   \<and> reachable (init (6 / 100) 0 5 (5 / 2) 90 None 7) after_like
   \<and> ratings after_like ''alice'' \<noteq> None
   \<and> 0 \<le> get_rating after_like ''alice'' \<and> get_rating after_like ''alice'' \<le> 5"
proof -
  have a: "(0::real) \<le> 5 / 2" and b: "(5 / 2 :: real) \<le> 5" by simp_all
  have c: "reachable (init (6 / 100) 0 5 (5 / 2) 90 None 7) after_like"
    using reachable_after_like by (simp add: default_system_def)
  obtain r where r: "ratings after_like ''alice'' = Some r"
    using after_like_rated by blast
  have "min_rating after_like \<le> r \<and> r \<le> max_rating after_like"
    using clamp_invariant [OF a b c] r by blast
  then show ?thesis using a b c r by (simp add: get_rating_def after_like_fields)
qed

subsection \<open>The cooldown gate\<close>

text \<open>
  Claim C3. When the cooldown tracker has an entry for (rater, target) and the whole days
  elapsed since its time are fewer than \<open>cooldown_days\<close>, \<open>process_feedback\<close> returns the
  current rating of the target and the state of the object is the one before the call:
  rating store, counters, \<open>last_updated\<close>, history and cooldown tracker are unchanged.
\<close>

theorem cooldown_blocks:
  assumes "last_feedback s (rater, target) = Some t0"
    and "(t1 - t0) div microseconds_per_day < cooldown_days s"
  shows "process_feedback s target rater ft ctext t1 t2 = (Inr (get_rating s target), s)"
proof -
  have "\<not> cooldown_ok s target rater t1"
    using assms by (simp add: cooldown_ok_def)
  then show ?thesis by (rule process_feedback_blocked)
qed

theorem cooldown_blocks_witness:
  "last_feedback after_like (''bob'', ''alice'') = Some 1
   \<and> (518400000000 - 1) div microseconds_per_day < cooldown_days after_like
   \<and> process_feedback after_like ''alice'' ''bob'' ''dislike'' NonText 518400000000 518400000001
       = (Inr (get_rating after_like ''alice''), after_like)"
proof -
  have a: "last_feedback after_like (''bob'', ''alice'') = Some 1"
    by (simp add: after_like_last_feedback)
  have b: "(518400000000 - 1) div microseconds_per_day < cooldown_days after_like"
    by (simp add: after_like_fields microseconds_per_day_def)
  show ?thesis using a b cooldown_blocks [OF a b] by simp
qed

subsection \<open>An invalid feedback type\<close>

text \<open>
  Claim C1, as the code has it. A call with a feedback type outside like, dislike and
  comment leaves the state of the object unchanged; it raises the \<open>ValueError\<close> when the
  call passes the cooldown gate, and when the cooldown for (rater, target) is active it
  returns the current rating of the target and raises nothing: the gate comes first.
\<close>

theorem invalid_feedback_type:
  assumes "ft \<notin> {''like'', ''dislike'', ''comment''}"
  shows "process_feedback s target rater ft ctext t1 t2 =
           (if cooldown_ok s target rater t1 then (Inl ValueError_feedback_type, s)
            else (Inr (get_rating s target), s))"
  using assms by (simp add: process_feedback_blocked process_feedback_invalid)

theorem invalid_feedback_type_witness:
  "''spam'' \<notin> {''like'', ''dislike'', ''comment''}
   \<and> process_feedback default_system ''alice'' ''bob'' ''spam'' NonText 0 1
       = (Inl ValueError_feedback_type, default_system)"
proof -
  have a: "''spam'' \<notin> {''like'', ''dislike'', ''comment''}" by simp
  show ?thesis
    using a invalid_feedback_type [OF a, of default_system "''alice''" "''bob''" NonText 0 1]
    by (simp add: cooldown_ok_default)
qed

text \<open>
  The claim as stated fails: after \<^verbatim>\<open>process_feedback("alice", "bob", "like")\<close>, the call
  \<^verbatim>\<open>process_feedback("alice", "bob", "spam")\<close> within the cooldown returns the rating of
  alice and raises nothing.
\<close>

theorem invalid_feedback_type_counterexample:
  "''spam'' \<notin> {''like'', ''dislike'', ''comment''}
   \<and> last_feedback after_like (''bob'', ''alice'') = Some 1
   \<and> process_feedback after_like ''alice'' ''bob'' ''spam'' NonText 2 3
       = (Inr (get_rating after_like ''alice''), after_like)
   \<and> fst (process_feedback after_like ''alice'' ''bob'' ''spam'' NonText 2 3)
       \<noteq> Inl ValueError_feedback_type"
proof -
  have "\<not> cooldown_ok after_like ''alice'' ''bob'' 2"
    by (simp add: cooldown_ok_def after_like_last_feedback after_like_fields
        microseconds_per_day_def)
  then show ?thesis
    by (simp add: process_feedback_blocked after_like_last_feedback)
qed

subsection \<open>What a feedback may change\<close>

lemma commit_feedback_frame:
  "snd (commit_feedback s target rater ft pol d tr change now) = s' \<Longrightarrow>
   (\<forall>u. u \<noteq> target \<longrightarrow> ratings s' u = ratings s u \<and> map_of (meta s') u = map_of (meta s) u)
   \<and> (\<forall>k. k \<noteq> (rater, target) \<longrightarrow> last_feedback s' k = last_feedback s k)
   \<and> appeal_log s' = appeal_log s \<and> same_config s s'"
  by (auto simp: commit_feedback_eq update_conv' same_config_def)

lemma process_feedback_frame_aux:
  assumes "s' = snd (process_feedback s target rater ft ctext t1 t2)"
  shows "(\<forall>u. u \<noteq> target \<longrightarrow> ratings s' u = ratings s u \<and> map_of (meta s') u = map_of (meta s) u)
   \<and> (\<forall>k. k \<noteq> (rater, target) \<longrightarrow> last_feedback s' k = last_feedback s k)
   \<and> appeal_log s' = appeal_log s \<and> same_config s s'"
proof -
  have "s' = s \<or> (\<exists>pol d change.
      s' = snd (commit_feedback s target rater ft pol d (get_rating s target) change t2))"
    using process_feedback_cases [of s target rater ft ctext t1 t2] assms
    by (metis snd_apfst)
  then show ?thesis
  proof
    assume "s' = s"
    then show ?thesis by (simp add: same_config_def)
  next
    assume "\<exists>pol d change.
      s' = snd (commit_feedback s target rater ft pol d (get_rating s target) change t2)"
    then obtain pol d change where
      "snd (commit_feedback s target rater ft pol d (get_rating s target) change t2) = s'"
      by auto
    from commit_feedback_frame [OF this] show ?thesis by simp
  qed
qed

lemma accepted_writes:
  assumes "accepted s target rater ft t1"
    and "s' = snd (process_feedback s target rater ft ctext t1 t2)"
  shows "\<exists>r. fst (process_feedback s target rater ft ctext t1 t2) = Inr r
             \<and> ratings s' target = Some r
             \<and> map_of (meta s') target \<noteq> None
             \<and> last_feedback s' (rater, target) = Some t2"
  using assms(2)
  by (simp add: accepted_result [OF assms(1)] accepted_ratings [OF assms(1)]
      accepted_meta [OF assms(1)] accepted_last_feedback [OF assms(1)])

text \<open>
  Claim C10, as the code has it. A call of \<open>process_feedback\<close> changes at most the rating
  entry of the target, the metadata entry of the target and the cooldown entry of the
  pair (rater, target): the rating and metadata of every other user, every other cooldown
  key, the appeal log and the configuration are unchanged. The rating and metadata of the
  rater are among the unchanged when the rater is not the target. An accepted call
  returns the new rating and writes these three entries.
\<close>

theorem process_feedback_frame:
  "let s' = snd (process_feedback s target rater ft ctext t1 t2) in
   (\<forall>u. u \<noteq> target \<longrightarrow> ratings s' u = ratings s u \<and> map_of (meta s') u = map_of (meta s) u)
   \<and> (\<forall>k. k \<noteq> (rater, target) \<longrightarrow> last_feedback s' k = last_feedback s k)
   \<and> appeal_log s' = appeal_log s \<and> same_config s s'
   \<and> (rater \<noteq> target \<longrightarrow>
        ratings s' rater = ratings s rater \<and> map_of (meta s') rater = map_of (meta s) rater)
   \<and> (accepted s target rater ft t1 \<longrightarrow>
        (\<exists>r. fst (process_feedback s target rater ft ctext t1 t2) = Inr r
             \<and> ratings s' target = Some r
             \<and> map_of (meta s') target \<noteq> None
             \<and> last_feedback s' (rater, target) = Some t2))"
  using process_feedback_frame_aux
      [where s = s and target = target and rater = rater and ft = ft and ctext = ctext
         and ?t1.0 = t1 and ?t2.0 = t2, OF refl]
    accepted_writes
      [where s = s and target = target and rater = rater and ft = ft and ctext = ctext
         and ?t1.0 = t1 and ?t2.0 = t2, OF _ refl]
  by (simp add: Let_def)

theorem process_feedback_frame_witness:
  "accepted default_system ''alice'' ''bob'' ''like'' 0
   \<and> ratings after_like ''bob'' = ratings default_system ''bob''
   \<and> map_of (meta after_like) ''bob'' = map_of (meta default_system) ''bob''
   \<and> ratings after_like ''carol'' = ratings default_system ''carol''
   \<and> last_feedback after_like (''alice'', ''bob'') = last_feedback default_system (''alice'', ''bob'')
   \<and> appeal_log after_like = appeal_log default_system
   \<and> ratings after_like ''alice'' \<noteq> None
   \<and> last_feedback after_like (''bob'', ''alice'') = Some 1"
proof -
  have a: "accepted default_system ''alice'' ''bob'' ''like'' 0"
    by (simp add: accepted_default)
  show ?thesis
    using a process_feedback_frame [of default_system "''alice''" "''bob''" "''like''" NonText 0 1]
    unfolding Let_def after_like_def [symmetric]
    by auto
qed

text \<open>
  The claim as stated fails when a user rates themselves: after
  \<^verbatim>\<open>process_feedback("alice", "alice", "like")\<close> on a new object, the rater alice has a rating
  entry and a metadata entry that she had not, and her rating is above the neutral one.
\<close>

lemma self_like_change:
  "feedback_change default_system ''alice'' ''alice'' ''like'' ''positive''
     = 63 / 2000 * (1 / 10 + 11 / 10 * sqrt (1 / 2))"
  by (simp add: feedback_change_def direction_of_def feedback_type_mult_def
      default_system_fields get_rating_default power3_eq_cube)

lemma scaled_weight_pos: "0 \<le> x \<Longrightarrow> 0 < 63 / 2000 * (1 / 10 + 11 / 10 * (x::real))"
  by (simp add: add_pos_nonneg)

lemma scaled_weight_le: "x \<le> 1 \<Longrightarrow> 63 / 2000 * (1 / 10 + 11 / 10 * (x::real)) \<le> 1"
  by (simp add: algebra_simps)

lemma self_like_change_bounds:
  "0 < feedback_change default_system ''alice'' ''alice'' ''like'' ''positive''"
  "feedback_change default_system ''alice'' ''alice'' ''like'' ''positive'' \<le> 1"
proof -
  have l: "0 \<le> sqrt (1 / 2 :: real)" by simp
  have u: "sqrt (1 / 2 :: real) \<le> 1" by (simp add: real_sqrt_le_1_iff)
  show "0 < feedback_change default_system ''alice'' ''alice'' ''like'' ''positive''"
    unfolding self_like_change using l by (rule scaled_weight_pos)
  show "feedback_change default_system ''alice'' ''alice'' ''like'' ''positive'' \<le> 1"
    unfolding self_like_change using u by (rule scaled_weight_le)
qed

theorem process_feedback_frame_counterexample:
  "accepted default_system ''alice'' ''alice'' ''like'' 0
   \<and> ratings default_system ''alice'' = None
   \<and> ratings after_self_like ''alice'' \<noteq> None
   \<and> get_rating default_system ''alice'' = 5 / 2
   \<and> 5 / 2 < get_rating after_self_like ''alice''
   \<and> map_of (meta default_system) ''alice'' = None
   \<and> map_of (meta after_self_like) ''alice'' \<noteq> None"
proof -
  have a: "accepted default_system ''alice'' ''alice'' ''like'' 0"
    by (simp add: accepted_default)
  have p: "feedback_polarity default_system ''like'' NonText = ''positive''"
    by (simp add: feedback_polarity_def)
  have r: "ratings after_self_like ''alice'' =
      Some (clamp default_system
        (5 / 2 + feedback_change default_system ''alice'' ''alice'' ''like'' ''positive''))"
    unfolding after_self_like_def by (simp add: accepted_ratings [OF a] p get_rating_default)
  have c: "clamp default_system
        (5 / 2 + feedback_change default_system ''alice'' ''alice'' ''like'' ''positive'')
      = 5 / 2 + feedback_change default_system ''alice'' ''alice'' ''like'' ''positive''"
    using self_like_change_bounds by (intro clamp_id) (simp_all add: default_system_fields)
  have g: "5 / 2 < get_rating after_self_like ''alice''"
    using self_like_change_bounds(1) by (simp add: get_rating_def r c)
  have m: "map_of (meta after_self_like) ''alice'' \<noteq> None"
    unfolding after_self_like_def by (simp add: accepted_meta [OF a])
  show ?thesis
    using a g m by (simp add: r get_rating_default default_system_fields)
qed

subsection \<open>The history\<close>

lemma deque_append_nonempty: "deque_append h e \<noteq> []"
  by (cases h) (simp_all add: deque_append_def Let_def)

lemma deque_append_last: "last (deque_append h e) = e"
  by (cases h) (simp_all add: deque_append_def Let_def)


lemma deque_append_set: "e \<in> set (deque_append h e)"
  using deque_append_last [of h e] deque_append_nonempty [of h e] by (metis last_in_set)

subsection \<open>A feedback of neutral polarity\<close>









subsection \<open>Decay\<close>

lemma elapsed_days_le_0: "elapsed_days now last_dt \<le> 0 \<longleftrightarrow> now \<le> last_dt"
  by (simp add: elapsed_days_def field_simps)






lemma decay_user_appeal_log: "appeal_log (decay_user k now uid s) = appeal_log s"
  by (simp add: decay_user_def Let_def split: option.splits)





lemma fold_decay_user_appeal_log:
  "appeal_log (fold (decay_user k now) uids s) = appeal_log s"
  by (induction uids arbitrary: s) (simp_all add: decay_user_appeal_log)




subsection \<open>The difficulty modifier\<close>

lemma cube_mono: "(a::real) \<le> b \<Longrightarrow> a ^ 3 \<le> b ^ 3"
  by (rule power_mono_odd) simp_all

lemma difficulty_modifier_zero_max:
  "max_rating s = 0 \<Longrightarrow> difficulty_modifier s t = Inl ZeroDivisionError"
  by (simp add: difficulty_modifier_def)

lemma modifier_antimono:
  assumes "0 < mx" and "t1 \<le> t2"
  shows "max (12 / 100) (1 - (t2 / mx) ^ 3) \<le> max (12 / 100) (1 - (t1 / mx) ^ 3 :: real)"
proof -
  have "(t1 / mx) ^ 3 \<le> (t2 / mx) ^ 3"
    using assms by (intro cube_mono divide_right_mono) simp_all
  then show ?thesis by (auto simp: max_def)
qed

lemma modifier_mono_negative_max:
  assumes "mx < 0" and "t1 \<le> t2"
  shows "max (12 / 100) (1 - (t1 / mx) ^ 3) \<le> max (12 / 100) (1 - (t2 / mx) ^ 3 :: real)"
proof -
  have "(t2 / mx) ^ 3 \<le> (t1 / mx) ^ 3"
    using assms by (intro cube_mono divide_right_mono_neg) simp_all
  then show ?thesis by (auto simp: max_def)
qed

text \<open>
  Claim C7, as the code has it. With a positive \<open>max_rating\<close>, the difficulty modifier of
  every target rating for which \<^verbatim>\<open>frac ** 3\<close> does not raise is
  \<open>max 0.12 (1 - (target_rating / max_rating)\<^sup>3)\<close>, it is at least \<open>0.12\<close>, and a higher target
  rating never has a higher modifier. Where the cube of a quotient within the range of
  floats is beyond the range, the call raises \<open>OverflowError\<close>; with \<open>max_rating\<close> zero it
  raises \<open>ZeroDivisionError\<close>; with a negative \<open>max_rating\<close> a higher target rating never
  has a lower modifier.
\<close>

theorem difficulty_modifier_props:
  "(0 < max_rating s \<and> \<not> pow3_raises (t1 / max_rating s) \<and> \<not> pow3_raises (t2 / max_rating s) \<longrightarrow>
      (\<exists>d1 d2.
         difficulty_modifier s t1 = Inr d1 \<and> difficulty_modifier s t2 = Inr d2
         \<and> d1 = max (12 / 100) (1 - (t1 / max_rating s) ^ 3)
         \<and> 12 / 100 \<le> d1
         \<and> (t1 \<le> t2 \<longrightarrow> d2 \<le> d1)))
   \<and> (max_rating s \<noteq> 0 \<and> pow3_raises (t1 / max_rating s) \<longrightarrow>
        difficulty_modifier s t1 = Inl OverflowError)
   \<and> (max_rating s = 0 \<longrightarrow> difficulty_modifier s t1 = Inl ZeroDivisionError)
   \<and> (max_rating s < 0 \<and> \<not> pow3_raises (t1 / max_rating s) \<and> \<not> pow3_raises (t2 / max_rating s)
        \<and> t1 \<le> t2 \<longrightarrow>
        (\<exists>d1 d2. difficulty_modifier s t1 = Inr d1 \<and> difficulty_modifier s t2 = Inr d2
           \<and> d1 \<le> d2))"
proof -
  have lo: "(12 / 100 :: real) \<le> max (12 / 100) (1 - (t1 / max_rating s) ^ 3)"
    by (rule max.cobounded1)
  have pos: "\<exists>d1 d2.
         difficulty_modifier s t1 = Inr d1 \<and> difficulty_modifier s t2 = Inr d2
         \<and> d1 = max (12 / 100) (1 - (t1 / max_rating s) ^ 3)
         \<and> 12 / 100 \<le> d1
         \<and> (t1 \<le> t2 \<longrightarrow> d2 \<le> d1)"
    if "0 < max_rating s" "\<not> pow3_raises (t1 / max_rating s)" "\<not> pow3_raises (t2 / max_rating s)"
  proof -
    have m: "max_rating s \<noteq> 0" using that(1) by simp
    show ?thesis
      unfolding difficulty_modifier_ok [OF m that(2)] difficulty_modifier_ok [OF m that(3)]
      using modifier_antimono [OF that(1), of t1 t2] lo by blast
  qed
  have neg: "\<exists>d1 d2. difficulty_modifier s t1 = Inr d1 \<and> difficulty_modifier s t2 = Inr d2
           \<and> d1 \<le> d2"
    if "max_rating s < 0" "\<not> pow3_raises (t1 / max_rating s)" "\<not> pow3_raises (t2 / max_rating s)"
      "t1 \<le> t2"
  proof -
    have m: "max_rating s \<noteq> 0" using that(1) by simp
    show ?thesis
      unfolding difficulty_modifier_ok [OF m that(2)] difficulty_modifier_ok [OF m that(3)]
      using modifier_mono_negative_max [OF that(1,4)] by blast
  qed
  show ?thesis
    using pos neg difficulty_modifier_overflow [of s t1] difficulty_modifier_zero_max [of s t1]
    by blast
qed

lemma pow3_raises_huge: "pow3_raises (huge_rating / 5)"
proof -
  define p :: real where "p = 2 ^ 697"
  define x :: real where "x = huge_rating / 5"
  have p0: "0 < p" by (simp only: p_def zero_less_power zero_less_numeral)
  have "huge_rating = 2 ^ 3 * p"
    unfolding huge_rating_def p_def by (simp only: power_add [symmetric]) simp
  then have x: "x = 8 * p / 5" by (simp add: x_def)
  have xp: "p \<le> x" and x0: "0 \<le> x" using p0 by (simp_all add: x)
  have xu: "x \<le> 2 * p" using p0 by (simp add: x)
  have "2 * p = 2 ^ 698" unfolding p_def by (simp only: power_Suc [symmetric]) simp
  moreover have "(2::real) ^ 698 < 2 ^ 1023" by (intro power_strict_increasing) simp_all
  moreover have "(2::real) ^ 970 \<le> 2 ^ 1023" by (intro power_increasing) simp_all
  moreover have "(2::real) ^ 1024 = 2 * 2 ^ 1023" by (simp only: power_Suc [symmetric]) simp
  ultimately have lt: "x < 2 ^ 1024 - 2 ^ 970" using xu by linarith
  have "p ^ 3 \<le> x ^ 3" using xp p0 by (intro power_mono) simp_all
  moreover have "p ^ 3 = 2 ^ 2091" unfolding p_def by (simp only: power_mult [symmetric]) simp
  moreover have "(2::real) ^ 1024 \<le> 2 ^ 2091" by (intro power_increasing) simp_all
  moreover have "(0::real) \<le> 2 ^ 970" by (simp only: zero_le_power zero_le_numeral)
  ultimately have ge: "2 ^ 1024 - 2 ^ 970 \<le> x ^ 3" by linarith
  have a1: "\<bar>x\<bar> = x" using x0 by simp
  have a3: "\<bar>x ^ 3\<bar> = x ^ 3" using x0 by simp
  have "pow3_raises x"
    unfolding pow3_raises_def b64_overflows_def a1 a3 using lt ge by linarith
  then show ?thesis by (simp only: x_def)
qed

theorem difficulty_modifier_props_witness:
  "0 < max_rating default_system
   \<and> \<not> pow3_raises (0 / max_rating default_system)
   \<and> \<not> pow3_raises (5 / max_rating default_system)
   \<and> difficulty_modifier default_system 0 = Inr 1
   \<and> difficulty_modifier default_system (5 / 2) = Inr (7 / 8)
   \<and> difficulty_modifier default_system 5 = Inr (12 / 100)
   \<and> (0::real) \<le> 5 \<and> (12 / 100 :: real) \<le> 1
   \<and> pow3_raises (huge_rating / max_rating default_system)
   \<and> difficulty_modifier default_system huge_rating = Inl OverflowError
   \<and> max_rating zero_scale = 0
   \<and> difficulty_modifier zero_scale 1 = Inl ZeroDivisionError
   \<and> max_rating scale_below_zero < 0
   \<and> \<not> pow3_raises (- 5 / max_rating scale_below_zero)
   \<and> \<not> pow3_raises (0 / max_rating scale_below_zero)
   \<and> (- 5 :: real) \<le> 0
   \<and> (\<exists>d1 d2. difficulty_modifier scale_below_zero (- 5) = Inr d1
          \<and> difficulty_modifier scale_below_zero 0 = Inr d2 \<and> d1 \<le> d2)"
proof -
  have a: "0 < max_rating default_system" by (simp add: default_system_fields)
  have z: "max_rating zero_scale = 0" by (simp add: zero_scale_def init_def)
  have n: "max_rating scale_below_zero < 0" by (simp add: scale_below_zero_def init_def)
  have n1: "\<not> pow3_raises (- 5 / max_rating scale_below_zero)"
    and n2: "\<not> pow3_raises (0 / max_rating scale_below_zero)"
    by (simp_all add: scale_below_zero_def init_def no_overflow_small)
  have 5: "difficulty_modifier zero_scale 1 = Inl ZeroDivisionError"
    using difficulty_modifier_props [of zero_scale 1 0] z by blast
  have 6: "\<exists>d1 d2. difficulty_modifier scale_below_zero (- 5) = Inr d1
          \<and> difficulty_modifier scale_below_zero 0 = Inr d2 \<and> d1 \<le> d2"
    using difficulty_modifier_props [of scale_below_zero "- 5" 0] n n1 n2 by simp
  have b: "\<not> pow3_raises (0 / max_rating default_system)"
    and c: "\<not> pow3_raises (5 / max_rating default_system)"
    by (simp_all add: default_system_fields no_overflow_small)
  have h: "\<not> pow3_raises (5 / 2 / max_rating default_system)"
    by (simp add: default_system_fields no_overflow_small)
  have d: "pow3_raises (huge_rating / max_rating default_system)"
    using pow3_raises_huge by (simp only: default_system_fields)
  have e: "max_rating default_system \<noteq> 0" using a by simp
  have 1: "difficulty_modifier default_system 0 = Inr 1"
    using difficulty_modifier_props [of default_system 0 5] a b c by auto
  have 2: "difficulty_modifier default_system 5 = Inr (12 / 100)"
    using difficulty_modifier_props [of default_system 5 0] a b c
    by (auto simp: default_system_fields)
  have 3: "difficulty_modifier default_system (5 / 2) = Inr (7 / 8)"
    using difficulty_modifier_props [of default_system "5 / 2" 0] a b h
    by (auto simp: default_system_fields power3_eq_cube)
  have 4: "difficulty_modifier default_system huge_rating = Inl OverflowError"
    using difficulty_modifier_props [of default_system huge_rating 0] d e by blast
  show ?thesis using a b c d 1 2 3 4 5 6 z n n1 n2 by simp
qed

text \<open>
  The claim as stated fails on a scale below zero: with \<^verbatim>\<open>max_rating=-5.0\<close> the modifier is
  \<open>0.12\<close> at the target rating \<open>-5\<close> and \<open>1\<close> at the higher target rating \<open>0\<close>. It also fails
  for a target rating beyond the range of the cube: with the default configuration,
  \<^verbatim>\<open>_difficulty_modifier(2.0 ** 700)\<close> raises \<open>OverflowError\<close> and returns no value.
\<close>

theorem difficulty_modifier_counterexample:
  "difficulty_modifier scale_below_zero (- 5) = Inr (12 / 100)
   \<and> difficulty_modifier scale_below_zero 0 = Inr 1
   \<and> (- 5 :: real) \<le> 0 \<and> (12 / 100 :: real) < 1
   \<and> difficulty_modifier default_system huge_rating = Inl OverflowError"
proof -
  have m: "max_rating scale_below_zero = - 5"
    by (simp add: scale_below_zero_def init_def)
  have 1: "difficulty_modifier scale_below_zero (- 5) = Inr (12 / 100)"
    by (subst difficulty_modifier_ok) (simp_all add: m no_overflow_small)
  have 2: "difficulty_modifier scale_below_zero 0 = Inr 1"
    by (subst difficulty_modifier_ok) (simp_all add: m no_overflow_small)
  have 3: "difficulty_modifier default_system huge_rating = Inl OverflowError"
  proof (rule difficulty_modifier_overflow)
    show "max_rating default_system \<noteq> 0" by (simp add: default_system_fields)
    show "pow3_raises (huge_rating / max_rating default_system)"
      using pow3_raises_huge by (simp only: default_system_fields)
  qed
  show ?thesis using 1 2 3 by simp
qed

subsection \<open>The influence weight in binary64 arithmetic\<close>

lemma influence_weight_b64_ok:
  assumes "max_rating s \<noteq> 0" and "0 \<le> r / max_rating s"
  shows "influence_weight_b64 s r =
     Inr (round_b64 (round_b64 (1 / 10)
            + round_b64 (round_b64 (11 / 10) * round_b64 (sqrt (round_b64 (r / max_rating s))))))"
  using assms round_b64_nonneg [OF assms(2)]
  by (simp add: influence_weight_b64_def Let_def)

lemma influence_weight_b64_at_max:
  assumes "max_rating s \<noteq> 0"
  shows "influence_weight_b64 s (max_rating s) = Inr (5404319552844596 / 2 ^ 52)"
proof -
  have d: "max_rating s / max_rating s = 1" using assms by simp
  have "influence_weight_b64 s (max_rating s) =
     Inr (round_b64 (round_b64 (1 / 10)
            + round_b64 (round_b64 (11 / 10) * round_b64 (sqrt (round_b64 (max_rating s / max_rating s))))))"
    using assms d by (intro influence_weight_b64_ok) simp_all
  then show ?thesis
    by (simp only: d round_b64_1 real_sqrt_one mult_1_right b64_eleven_tenths
        b64_eleven_tenths_fixed b64_tenth b64_sum)
qed

lemma influence_weight_b64_at_0:
  assumes "max_rating s \<noteq> 0"
  shows "influence_weight_b64 s 0 = Inr (round_b64 (1 / 10))"
proof -
  have "influence_weight_b64 s 0 =
     Inr (round_b64 (round_b64 (1 / 10)
            + round_b64 (round_b64 (11 / 10) * round_b64 (sqrt (round_b64 (0 / max_rating s))))))"
    using assms by (intro influence_weight_b64_ok) simp_all
  then show ?thesis
    by (simp only: div_0 round_b64_0 real_sqrt_zero mult_zero_right add_0_right b64_tenth
        b64_tenth_fixed)
qed

lemma influence_weight_b64_mono:
  assumes "0 < max_rating s" and "0 \<le> r1" and "r1 \<le> r2"
  shows "\<exists>w1 w2. influence_weight_b64 s r1 = Inr w1 \<and> influence_weight_b64 s r2 = Inr w2
           \<and> w1 \<le> w2"
proof -
  let ?n1 = "round_b64 (r1 / max_rating s)" and ?n2 = "round_b64 (r2 / max_rating s)"
  let ?q1 = "round_b64 (sqrt ?n1)" and ?q2 = "round_b64 (sqrt ?n2)"
  let ?c = "round_b64 (11 / 10)" and ?d = "round_b64 (1 / 10)"
  have m: "max_rating s \<noteq> 0" using assms(1) by simp
  have d1: "0 \<le> r1 / max_rating s" and d2: "0 \<le> r2 / max_rating s"
    and d: "r1 / max_rating s \<le> r2 / max_rating s"
    using assms by (simp_all add: divide_right_mono)
  have n1: "0 \<le> ?n1" using d1 by (rule round_b64_nonneg)
  have n: "?n1 \<le> ?n2" using d1 d by (rule round_b64_mono)
  have q1: "0 \<le> ?q1" using n1 by (intro round_b64_nonneg) simp
  have q: "?q1 \<le> ?q2" using n1 n by (intro round_b64_mono) simp_all
  have c: "0 \<le> ?c" by (intro round_b64_nonneg) simp
  have d0: "0 \<le> ?d" by (intro round_b64_nonneg) simp
  have p1: "0 \<le> ?c * ?q1" using c q1 by simp
  have p: "?c * ?q1 \<le> ?c * ?q2" using q c by (rule mult_left_mono)
  have t1: "0 \<le> round_b64 (?c * ?q1)" using p1 by (rule round_b64_nonneg)
  have t: "round_b64 (?c * ?q1) \<le> round_b64 (?c * ?q2)" using p1 p by (rule round_b64_mono)
  have "round_b64 (?d + round_b64 (?c * ?q1)) \<le> round_b64 (?d + round_b64 (?c * ?q2))"
    using d0 t1 t by (intro round_b64_mono) simp_all
  then show ?thesis
    by (simp add: influence_weight_b64_ok [OF m d1] influence_weight_b64_ok [OF m d2])
qed

text \<open>
  Claim C6, as the code has it. With a positive \<open>max_rating\<close>: in exact arithmetic the
  influence weight of a rater rating \<open>r \<ge> 0\<close> is \<open>0.1 + 1.1 * sqrt (r / max_rating)\<close>, and
  it is \<open>0.1\<close> at \<open>0\<close> and \<open>1.2\<close> at \<open>max_rating\<close>; between \<open>0\<close> and \<open>max_rating\<close> a higher
  rater rating never has a lower weight, in exact arithmetic and in the binary64
  arithmetic of the code; the float the code returns at \<open>0\<close> is the float \<^verbatim>\<open>0.1\<close>, and the
  one it returns at \<open>max_rating\<close> is \<open>5404319552844596 / 2\<^sup>5\<^sup>2\<close>, the binary64 number next above
  the float \<^verbatim>\<open>1.2\<close>, which is \<open>5404319552844595 / 2\<^sup>5\<^sup>2\<close>.
\<close>

theorem influence_weight_props:
  assumes "0 < max_rating s"
  shows "(0 \<le> r \<longrightarrow> influence_weight s r = Inr (1 / 10 + 11 / 10 * sqrt (r / max_rating s)))
   \<and> (0 \<le> r1 \<and> r1 \<le> r2 \<and> r2 \<le> max_rating s \<longrightarrow>
        (\<exists>w1 w2. influence_weight s r1 = Inr w1 \<and> influence_weight s r2 = Inr w2 \<and> w1 \<le> w2)
        \<and> (\<exists>w1 w2. influence_weight_b64 s r1 = Inr w1 \<and> influence_weight_b64 s r2 = Inr w2
              \<and> w1 \<le> w2))
   \<and> influence_weight s 0 = Inr (1 / 10)
   \<and> influence_weight_b64 s 0 = Inr (round_b64 (1 / 10))
   \<and> influence_weight s (max_rating s) = Inr (12 / 10)
   \<and> influence_weight_b64 s (max_rating s) = Inr (5404319552844596 / 2 ^ 52)
   \<and> round_b64 (12 / 10) = 5404319552844595 / 2 ^ 52"
proof -
  have m: "max_rating s \<noteq> 0" using assms by simp
  have f: "influence_weight s x = Inr (1 / 10 + 11 / 10 * sqrt (x / max_rating s))" if "0 \<le> x" for x
    using that assms by (intro influence_weight_ok [OF m]) simp
  have mono: "1 / 10 + 11 / 10 * sqrt (r1 / max_rating s) \<le> 1 / 10 + 11 / 10 * sqrt (r2 / max_rating s)"
    if "r1 \<le> r2"
    using that assms by (simp add: divide_right_mono)
  have r: "(0 \<le> r \<longrightarrow> influence_weight s r = Inr (1 / 10 + 11 / 10 * sqrt (r / max_rating s)))
   \<and> (0 \<le> r1 \<and> r1 \<le> r2 \<and> r2 \<le> max_rating s \<longrightarrow>
        (\<exists>w1 w2. influence_weight s r1 = Inr w1 \<and> influence_weight s r2 = Inr w2 \<and> w1 \<le> w2))
   \<and> influence_weight s 0 = Inr (1 / 10)
   \<and> influence_weight s (max_rating s) = Inr (12 / 10)"
    using f [of r] f [of r1] f [of r2] f [of 0] f [of "max_rating s"] mono assms
    by auto
  show ?thesis
    using r influence_weight_b64_mono [OF assms, of r1 r2]
      influence_weight_b64_at_0 [OF m] influence_weight_b64_at_max [OF m] b64_twelve_tenths
    by blast
qed

theorem influence_weight_props_witness:
  "0 < max_rating default_system
   \<and> influence_weight default_system 0 = Inr (1 / 10)
   \<and> influence_weight default_system 5 = Inr (12 / 10)
   \<and> influence_weight default_system (5 / 2) = Inr (1 / 10 + 11 / 10 * sqrt (1 / 2))
   \<and> influence_weight_b64 default_system 0 = Inr (3602879701896397 / 2 ^ 55)
   \<and> influence_weight_b64 default_system 5 = Inr (5404319552844596 / 2 ^ 52)"
proof -
  have a: "0 < max_rating default_system" by (simp add: default_system_fields)
  show ?thesis
    using a influence_weight_props [OF a, of "5 / 2" 0 5]
    unfolding b64_tenth by (simp add: default_system_fields)
qed

text \<open>
  The claim as stated fails at the top of the scale: with the default \<^verbatim>\<open>max_rating = 5.0\<close>,
  \<^verbatim>\<open>_influence_weight(5.0)\<close> evaluates \<^verbatim>\<open>0.1 + 1.1 * 1.0\<close> to \<open>5404319552844596 / 2\<^sup>5\<^sup>2\<close>, printed
  \<^verbatim>\<open>1.2000000000000002\<close>, which is neither the float \<^verbatim>\<open>1.2\<close> nor the real \<open>1.2\<close>.
\<close>

theorem influence_weight_counterexample:
  "influence_weight_b64 default_system 5 = Inr (5404319552844596 / 2 ^ 52)
   \<and> round_b64 (12 / 10) = 5404319552844595 / 2 ^ 52
   \<and> influence_weight_b64 default_system 5 \<noteq> Inr (round_b64 (12 / 10))
   \<and> influence_weight_b64 default_system 5 \<noteq> Inr (12 / 10)"
proof -
  have m: "max_rating default_system \<noteq> 0" by (simp add: default_system_fields)
  have a: "influence_weight_b64 default_system 5 = Inr (5404319552844596 / 2 ^ 52)"
    using influence_weight_b64_at_max [OF m] by (simp only: default_system_fields)
  have b: "round_b64 (12 / 10) = 5404319552844595 / 2 ^ 52"
    by (rule b64_twelve_tenths)
  show ?thesis unfolding a b by simp
qed

end
